theory Spec2Isabelle
  imports Complex_Main
begin

section \<open>The enhanced trading bot: strategy selection and position ledger\<close>

text \<open>
  A shallow embedding of \<^verbatim>\<open>src/examples/enhanced_trading_bot.py\<close> (class
  \<^verbatim>\<open>EnhancedTradingBot\<close>). The bot's attributes that the strategy and ledger code
  reads or writes form the record \<open>bot\<close>; every method that mutates the bot takes the
  bot and returns it updated. Python numbers (JSON numbers, floats) are idealised as
  \<open>real\<close>: no rounding, no overflow. A Python string is a \<open>string\<close> whose
  characters are the code points below 256. Dictionaries with a fixed set of keys are
  records; a key whose absence the code can meet (a \<^verbatim>\<open>KeyError\<close>, or a
  \<^verbatim>\<open>.get\<close> with a default) is an \<open>option\<close> field.
\<close>

subsection \<open>Python built-ins used by the bot: \<^verbatim>\<open>str.replace\<close> and \<^verbatim>\<open>float\<close>\<close>

text \<open>
  \<^verbatim>\<open>s.replace('%', '')\<close> deletes every occurrence of the one-character string
  \<^verbatim>\<open>'%'\<close>, wherever it stands.
\<close>

definition remove_percent :: "string \<Rightarrow> string" where
  "remove_percent s = filter (\<lambda>c. c \<noteq> CHR ''%'') s"

text \<open>
  The result of \<^verbatim>\<open>float(str)\<close>: a finite number, an infinity (\<open>True\<close> for the
  negative one) or a NaN.
\<close>

datatype pyfloat = Finite real | Infinity bool | NaN

text \<open>
  \<^verbatim>\<open>float(s)\<close> on a string, after the grammar of the language reference:
  surrounding whitespace is dropped; then an optional sign, then either
  \<^verbatim>\<open>inf\<close>, \<^verbatim>\<open>infinity\<close>, \<^verbatim>\<open>nan\<close> (in any case) or a decimal number
  \<^verbatim>\<open>[digitpart] "." digitpart | digitpart ["."]\<close> with an optional exponent, where
  a digitpart is digits with single underscores between them. \<open>None\<close> is the
  \<^verbatim>\<open>ValueError\<close> of a string outside the grammar.

  The whitespace that \<^verbatim>\<open>float\<close> drops is the six ASCII characters tab, line feed,
  vertical tab, form feed, carriage return and space, and of the code points from 128
  on the Unicode spaces, which below 256 are U+0085 and U+00A0. The separators
  U+001C to U+001F are not dropped (\<^verbatim>\<open>float('\x1c5')\<close> raises), although
  \<^verbatim>\<open>str.strip\<close> would drop them.
\<close>

definition is_space :: "char \<Rightarrow> bool" where
  "is_space c = (c \<in> set [CHR 0x09, CHR 0x0A, CHR 0x0B, CHR 0x0C, CHR 0x0D, CHR '' '',
                            CHR 0x85, CHR 0xA0])"

definition strip :: "string \<Rightarrow> string" where
  "strip s = rev (dropWhile is_space (rev (dropWhile is_space s)))"

definition is_digit :: "char \<Rightarrow> bool" where
  "is_digit c = (c \<in> set ''0123456789'')"

definition digit_val :: "char \<Rightarrow> nat" where
  "digit_val c = of_char c - 48"

definition ascii_lower :: "char \<Rightarrow> char" where
  "ascii_lower c =
     (if (65::nat) \<le> of_char c \<and> of_char c \<le> (90::nat) then char_of (of_char c + (32::nat)) else c)"

text \<open>The digits that follow the first digit of a digitpart: \<^verbatim>\<open>(["_"] digit)*\<close>.\<close>

fun digitpart_tail :: "string \<Rightarrow> nat list \<times> string" where
  "digitpart_tail [] = ([], [])"
| "digitpart_tail [c] = (if is_digit c then ([digit_val c], []) else ([], [c]))"
| "digitpart_tail (c # d # cs) =
     (if is_digit c then
        (case digitpart_tail (d # cs) of (ds, r) \<Rightarrow> (digit_val c # ds, r))
      else if c = CHR ''_'' \<and> is_digit d then
        (case digitpart_tail cs of (ds, r) \<Rightarrow> (digit_val d # ds, r))
      else ([], c # d # cs))"

definition digitpart :: "string \<Rightarrow> (nat list \<times> string) option" where
  "digitpart s =
     (case s of
        [] \<Rightarrow> None
      | c # cs \<Rightarrow>
          if is_digit c then
            (case digitpart_tail cs of (ds, r) \<Rightarrow> Some (digit_val c # ds, r))
          else None)"

definition digits_value :: "nat list \<Rightarrow> nat" where
  "digits_value ds = foldl (\<lambda>acc d. 10 * acc + d) 0 ds"

text \<open>A sign, when there is one: \<open>True\<close> for \<^verbatim>\<open>-\<close>.\<close>

definition opt_sign :: "string \<Rightarrow> bool \<times> string" where
  "opt_sign s =
     (case s of
        c # cs \<Rightarrow>
          if c = CHR ''-'' then (True, cs) else if c = CHR ''+'' then (False, cs) else (False, s)
      | [] \<Rightarrow> (False, s))"

text \<open>The exponent of a number: absent (factor 1), or \<^verbatim>\<open>("e"|"E") [sign] digitpart\<close>.\<close>

definition exponent :: "string \<Rightarrow> real option" where
  "exponent s =
     (case s of
        [] \<Rightarrow> Some 1
      | c # cs \<Rightarrow>
          if c = CHR ''e'' \<or> c = CHR ''E'' then
            (case opt_sign cs of
               (neg, r) \<Rightarrow>
                 (case digitpart r of
                    Some (ds, []) \<Rightarrow>
                      Some (if neg then 1 / 10 ^ digits_value ds else 10 ^ digits_value ds)
                  | _ \<Rightarrow> None))
          else None)"

text \<open>The number after the sign: \<^verbatim>\<open>[digitpart] "." digitpart | digitpart ["."]\<close>, then the exponent.\<close>

definition floatnumber :: "string \<Rightarrow> real option" where
  "floatnumber s =
     (case digitpart s of
        Some (ds, r) \<Rightarrow>
          (case r of
             c # r' \<Rightarrow>
               if c = CHR ''.'' then
                 (case digitpart r' of
                    Some (fs, r'') \<Rightarrow>
                      map_option
                        (\<lambda>e. (real (digits_value ds) + real (digits_value fs) / 10 ^ length fs) * e)
                        (exponent r'')
                  | None \<Rightarrow> map_option (\<lambda>e. real (digits_value ds) * e) (exponent r'))
               else map_option (\<lambda>e. real (digits_value ds) * e) (exponent r)
           | [] \<Rightarrow> Some (real (digits_value ds)))
      | None \<Rightarrow>
          (case s of
             c # r' \<Rightarrow>
               if c = CHR ''.'' then
                 (case digitpart r' of
                    Some (fs, r'') \<Rightarrow>
                      map_option (\<lambda>e. real (digits_value fs) / 10 ^ length fs * e) (exponent r'')
                  | None \<Rightarrow> None)
               else None
           | [] \<Rightarrow> None))"

definition py_float :: "string \<Rightarrow> pyfloat option" where
  "py_float s =
     (case opt_sign (strip s) of
        (neg, r) \<Rightarrow>
          if map ascii_lower r = ''inf'' \<or> map ascii_lower r = ''infinity'' then Some (Infinity neg)
          else if map ascii_lower r = ''nan'' then Some NaN
          else map_option (\<lambda>x. Finite (if neg then - x else x)) (floatnumber r))"

text \<open>Float division by a finite non-zero number.\<close>

fun float_div :: "pyfloat \<Rightarrow> real \<Rightarrow> pyfloat" where
  "float_div (Finite x) d = Finite (x / d)"
| "float_div (Infinity neg) d = Infinity (if d < 0 then \<not> neg else neg)"
| "float_div NaN d = NaN"

subsection \<open>The grammar of \<^verbatim>\<open>float\<close>\<close>

text \<open>
  The strings that \<^verbatim>\<open>float\<close> accepts, as the language reference gives them,
  production by production:
  \<^verbatim>\<open>digitpart ::= digit (["_"] digit)*\<close>,
  \<^verbatim>\<open>number ::= [digitpart] "." digitpart | digitpart ["."]\<close>,
  \<^verbatim>\<open>exponent ::= ("e" | "E") [sign] digitpart\<close>,
  \<^verbatim>\<open>floatnumber ::= number [exponent]\<close>,
  \<^verbatim>\<open>absfloatvalue ::= floatnumber | infinity | nan\<close>,
  \<^verbatim>\<open>floatvalue ::= [sign] absfloatvalue\<close>, the words in any case, and the whole
  between leading and trailing whitespace. A string is numeric when it is in this
  language. \<open>digit_tail_str\<close> is \<^verbatim>\<open>(["_"] digit)*\<close>.
\<close>

inductive digit_tail_str :: "string \<Rightarrow> bool" where
  dt_Nil: "digit_tail_str []"
| dt_Digit: "is_digit c \<Longrightarrow> digit_tail_str s \<Longrightarrow> digit_tail_str (c # s)"
| dt_Under: "is_digit c \<Longrightarrow> digit_tail_str s \<Longrightarrow> digit_tail_str (CHR ''_'' # c # s)"

definition digitpart_str :: "string \<Rightarrow> bool" where
  "digitpart_str s = (\<exists>c t. is_digit c \<and> digit_tail_str t \<and> s = c # t)"

definition sign_str :: "string \<Rightarrow> bool" where
  "sign_str s = (s = ''+'' \<or> s = ''-'')"

definition number_str :: "string \<Rightarrow> bool" where
  "number_str s =
     ((\<exists>ip fp. (ip = [] \<or> digitpart_str ip) \<and> digitpart_str fp \<and> s = ip @ ''.'' @ fp) \<or>
      (\<exists>ip. digitpart_str ip \<and> (s = ip \<or> s = ip @ ''.'')))"

definition exponent_str :: "string \<Rightarrow> bool" where
  "exponent_str s =
     (\<exists>c sg dp. (c = CHR ''e'' \<or> c = CHR ''E'') \<and> (sg = [] \<or> sign_str sg) \<and>
        digitpart_str dp \<and> s = c # sg @ dp)"

definition floatnumber_str :: "string \<Rightarrow> bool" where
  "floatnumber_str s =
     (\<exists>n e. number_str n \<and> (e = [] \<or> exponent_str e) \<and> s = n @ e)"

definition absfloatvalue_str :: "string \<Rightarrow> bool" where
  "absfloatvalue_str s =
     (floatnumber_str s \<or> map ascii_lower s = ''inf'' \<or> map ascii_lower s = ''infinity'' \<or>
      map ascii_lower s = ''nan'')"

definition floatvalue_str :: "string \<Rightarrow> bool" where
  "floatvalue_str s = (\<exists>sg r. (sg = [] \<or> sign_str sg) \<and> absfloatvalue_str r \<and> s = sg @ r)"

definition numeric :: "string \<Rightarrow> bool" where
  "numeric s = floatvalue_str (strip s)"

text \<open>What may follow a digitpart in the grammar: no digit and no underscore.\<close>

definition no_digit_ahead :: "string \<Rightarrow> bool" where
  "no_digit_ahead r = (case r of [] \<Rightarrow> True | c # _ \<Rightarrow> \<not> is_digit c \<and> c \<noteq> CHR ''_'')"

subsection \<open>Percentage strings\<close>

text \<open>
  Raised exceptions are values. \<open>ValueError\<close> is what \<^verbatim>\<open>float\<close> raises on a
  string that is no number; \<open>KeyError\<close> is a missing dictionary key.
\<close>

datatype error = KeyError | ValueError

text \<open>
  The expression \<^verbatim>\<open>float(s.replace('%', '')) / 100\<close> of
  \<^verbatim>\<open>execute_accumulation_strategy\<close> and \<^verbatim>\<open>execute_consolidation_strategy\<close>.
\<close>

definition parse_percentage :: "string \<Rightarrow> error + pyfloat" where
  "parse_percentage s =
     (case py_float (remove_percent s) of
        None \<Rightarrow> Inl ValueError
      | Some v \<Rightarrow> Inr (float_div v 100))"

text \<open>
  The parsing rule in the words of the specification: strip one trailing \<^verbatim>\<open>%\<close>,
  divide the rest by 100, fail when the rest is not numeric.
\<close>

definition strip_trailing_percent :: "string \<Rightarrow> string" where
  "strip_trailing_percent s = (if s \<noteq> [] \<and> last s = CHR ''%'' then butlast s else s)"

definition spec_parse_percentage :: "string \<Rightarrow> error + pyfloat" where
  "spec_parse_percentage s =
     (case py_float (strip_trailing_percent s) of
        None \<Rightarrow> Inl ValueError
      | Some v \<Rightarrow> Inr (float_div v 100))"

subsection \<open>Data model\<close>

type_synonym timestamp = nat

text \<open>The order dictionaries that the strategies build; keys that only some strategies set are options.\<close>

record order =
  o_symbol :: string
  o_side :: string
  o_amount :: real
  o_price_offset :: "pyfloat option"
  o_type :: string
  o_delay :: "nat option"
  o_timestamp :: timestamp

record position =
  p_symbol :: string
  p_side :: string
  p_amount :: real
  p_value :: real
  p_entry_price :: real
  p_stop_loss :: real
  p_take_profit_levels :: "real list"
  p_timestamp :: timestamp
  p_status :: string

record trade =
  t_symbol :: string
  t_action :: string
  t_side :: string
  t_amount :: real
  t_price :: real
  t_reason :: "string option"
  t_timestamp :: timestamp

text \<open>
  \<^verbatim>\<open>risk_mgmt['stop_loss']['price']\<close> and \<^verbatim>\<open>risk_mgmt['take_profit']['levels']\<close>;
  \<open>None\<close> when a key on the path is missing.
\<close>

record risk_mgmt =
  stop_loss_price :: "real option"
  take_profit_levels :: "real list option"

record scaling_level =
  sl_percentage :: real
  sl_price_offset :: string

text \<open>
  \<^verbatim>\<open>position_mgmt['entry_method']\<close>. \<open>em_scaling_levels\<close> is where section 3 of the
  specification puts the scaling levels; the code never reads it.
\<close>

record entry_method =
  em_type :: string
  em_scaling_levels :: "scaling_level list option"
  em_price_offset :: "string option"

text \<open>
  \<^verbatim>\<open>position_mgmt\<close>: \<open>pm_scaling_levels\<close> is \<^verbatim>\<open>position_mgmt['scaling_levels']\<close>, the key
  that \<^verbatim>\<open>execute_accumulation_strategy\<close> reads.
\<close>

record position_mgmt =
  entry_method :: entry_method
  position_size_percentage :: real
  pm_scaling_levels :: "scaling_level list option"

record signal_summary =
  ss_action :: string
  market_phase :: string
  strategy_type :: string
  ss_confidence :: int

record execution_instructions =
  position_management :: position_mgmt
  risk_management :: risk_mgmt

record instructions =
  signal_summary :: signal_summary
  execution_instructions :: execution_instructions

text \<open>The signal of \<^verbatim>\<open>get_enhanced_signal\<close>; the bot reads its confidence only.\<close>

record signal =
  confidence :: int

text \<open>The answer of \<^verbatim>\<open>validate_strategy\<close>: \<^verbatim>\<open>validation.get('valid', False)\<close>.\<close>

record validation =
  valid :: "bool option"

text \<open>
  The bot. \<open>positions\<close> and \<open>trade_history\<close> are the Python lists of the class.
  \<open>placed\<close> is the trace of the order dictionaries handed to
  \<^verbatim>\<open>simulate_order_placement\<close>, in call order (the code logs each of them). The clock
  is the environment: \<open>clock k\<close> is what the \<open>k\<close>-th call of \<^verbatim>\<open>datetime.now()\<close>
  returns, \<open>ticks\<close> counts the calls made so far.
\<close>

record bot =
  account_balance :: real
  positions :: "position list"
  trade_history :: "trade list"
  confidence_threshold :: int
  max_positions :: int
  placed :: "order list"
  clock :: "nat \<Rightarrow> timestamp"
  ticks :: nat

text \<open>\<^verbatim>\<open>__init__\<close> with the default balance, under a given clock.\<close>

definition init_bot :: "(nat \<Rightarrow> timestamp) \<Rightarrow> bot" where
  "init_bot clk =
     \<lparr>account_balance = 10000, positions = [], trade_history = [],
      confidence_threshold = 50, max_positions = 5, placed = [], clock = clk, ticks = 0\<rparr>"

definition datetime_now :: "bot \<Rightarrow> timestamp \<times> bot" where
  "datetime_now b = (clock b (ticks b), b\<lparr>ticks := Suc (ticks b)\<rparr>)"

subsection \<open>Position ledger\<close>

text \<open>
  \<^verbatim>\<open>simulate_order_placement\<close>. Building the position dictionary reads the two risk
  keys; a missing one raises inside the \<^verbatim>\<open>try\<close>, before anything is appended, and
  the method returns \<open>False\<close>.
\<close>

definition simulate_order_placement :: "order \<Rightarrow> risk_mgmt \<Rightarrow> bot \<Rightarrow> bool \<times> bot" where
  "simulate_order_placement ord rm b0 =
     (let b = b0\<lparr>placed := placed b0 @ [ord]\<rparr>;
          position_value = account_balance b * o_amount ord
      in case stop_loss_price rm of
           None \<Rightarrow> (False, b)
         | Some sl \<Rightarrow>
             (case take_profit_levels rm of
                None \<Rightarrow> (False, b)
              | Some tps \<Rightarrow>
                  let position =
                        \<lparr>p_symbol = o_symbol ord,
                         p_side = (if o_side ord = ''buy'' then ''long'' else ''short''),
                         p_amount = o_amount ord,
                         p_value = position_value,
                         p_entry_price = 50000,
                         p_stop_loss = sl,
                         p_take_profit_levels = tps,
                         p_timestamp = o_timestamp ord,
                         p_status = ''open''\<rparr>;
                      trade =
                        \<lparr>t_symbol = o_symbol ord,
                         t_action = ''open'',
                         t_side = p_side position,
                         t_amount = o_amount ord,
                         t_price = p_entry_price position,
                         t_reason = None,
                         t_timestamp = o_timestamp ord\<rparr>
                  in (True, b\<lparr>positions := positions b @ [position],
                               trade_history := trade_history b @ [trade]\<rparr>)))"

text \<open>
  \<^verbatim>\<open>simulate_position_exit\<close>: the list comprehension keeps the positions that differ
  from the given one (dictionary equality), then a close trade is appended.
\<close>

definition simulate_position_exit :: "position \<Rightarrow> string \<Rightarrow> bot \<Rightarrow> bool \<times> bot" where
  "simulate_position_exit position reason b0 =
     (let b = b0\<lparr>positions := filter (\<lambda>p. p \<noteq> position) (positions b0)\<rparr>;
          (now, b') = datetime_now b;
          trade =
            \<lparr>t_symbol = p_symbol position,
             t_action = ''close'',
             t_side = p_side position,
             t_amount = p_amount position,
             t_price = p_entry_price position * 1.02,
             t_reason = Some reason,
             t_timestamp = now\<rparr>
      in (True, b'\<lparr>trade_history := trade_history b' @ [trade]\<rparr>))"

text \<open>\<^verbatim>\<open>get_position\<close>: the first open position of the symbol.\<close>

definition get_position :: "string \<Rightarrow> bot \<Rightarrow> position option" where
  "get_position symbol b = find (\<lambda>p. p_symbol p = symbol) (positions b)"

subsection \<open>Strategies\<close>

text \<open>
  What a strategy method does besides changing the bot: it returns a Boolean, or an
  exception leaves it. The bot of the pair is the bot at that moment, with every
  mutation made before the exception.
\<close>

datatype outcome = Return bool | Raise error

text \<open>
  The \<^verbatim>\<open>for i, level in enumerate(scaling_levels)\<close> loop of
  \<^verbatim>\<open>execute_accumulation_strategy\<close>, from index \<open>i\<close> on. The result is the
  exception that ended the loop, if any. The pauses (\<^verbatim>\<open>time.sleep\<close>) are left out.
\<close>

fun accumulation_loop ::
  "string \<Rightarrow> real \<Rightarrow> risk_mgmt \<Rightarrow> nat \<Rightarrow> scaling_level list \<Rightarrow> bot \<Rightarrow> error option \<times> bot" where
  "accumulation_loop symbol position_size rm i [] b = (None, b)"
| "accumulation_loop symbol position_size rm i (level # levels) b =
     (let order_size = position_size * (sl_percentage level / 100)
      in case parse_percentage (sl_price_offset level) of
           Inl e \<Rightarrow> (Some e, b)
         | Inr price_offset \<Rightarrow>
             (let (now, b1) = datetime_now b;
                  ord = \<lparr>o_symbol = symbol, o_side = ''buy'', o_amount = order_size,
                         o_price_offset = Some price_offset, o_type = ''limit'',
                         o_delay = Some (i * 900), o_timestamp = now\<rparr>
              in accumulation_loop symbol position_size rm (Suc i) levels
                   (snd (simulate_order_placement ord rm b1))))"

definition execute_accumulation_strategy ::
  "string \<Rightarrow> position_mgmt \<Rightarrow> risk_mgmt \<Rightarrow> bot \<Rightarrow> outcome \<times> bot" where
  "execute_accumulation_strategy symbol pm rm b =
     (let position_size = position_size_percentage pm
      in if em_type (entry_method pm) = ''scaled_entry'' then
           (case pm_scaling_levels pm of
              None \<Rightarrow> (Raise KeyError, b)
            | Some scaling_levels \<Rightarrow>
                (case accumulation_loop symbol position_size rm 0 scaling_levels b of
                   (Some e, b') \<Rightarrow> (Raise e, b')
                 | (None, b') \<Rightarrow> (Return True, b')))
         else (Return True, b))"

definition execute_distribution_strategy ::
  "string \<Rightarrow> position_mgmt \<Rightarrow> risk_mgmt \<Rightarrow> bot \<Rightarrow> outcome \<times> bot" where
  "execute_distribution_strategy symbol pm rm b =
     (let b1 = (case get_position symbol b of
                  Some existing_position \<Rightarrow>
                    snd (simulate_position_exit existing_position ''distribution_exit'' b)
                | None \<Rightarrow> b)
      in if position_size_percentage pm > 0 then
           (let (now, b2) = datetime_now b1;
                ord = \<lparr>o_symbol = symbol, o_side = ''sell'',
                       o_amount = position_size_percentage pm, o_price_offset = None,
                       o_type = ''market'', o_delay = None, o_timestamp = now\<rparr>
            in (Return True, snd (simulate_order_placement ord rm b2)))
         else (Return True, b1))"

definition execute_markup_strategy ::
  "string \<Rightarrow> position_mgmt \<Rightarrow> risk_mgmt \<Rightarrow> bot \<Rightarrow> outcome \<times> bot" where
  "execute_markup_strategy symbol pm rm b =
     (if em_type (entry_method pm) = ''immediate_entry'' then
        (let (now, b1) = datetime_now b;
             ord = \<lparr>o_symbol = symbol, o_side = ''buy'',
                    o_amount = position_size_percentage pm, o_price_offset = None,
                    o_type = ''market'', o_delay = None, o_timestamp = now\<rparr>
         in (Return True, snd (simulate_order_placement ord rm b1)))
      else (Return True, b))"

definition execute_markdown_strategy ::
  "string \<Rightarrow> position_mgmt \<Rightarrow> risk_mgmt \<Rightarrow> bot \<Rightarrow> outcome \<times> bot" where
  "execute_markdown_strategy symbol pm rm b =
     (let b1 = (case get_position symbol b of
                  Some existing_position \<Rightarrow>
                    if p_side existing_position = ''long'' then
                      snd (simulate_position_exit existing_position ''markdown_exit'' b)
                    else b
                | None \<Rightarrow> b)
      in if position_size_percentage pm > 0 then
           (let (now, b2) = datetime_now b1;
                ord = \<lparr>o_symbol = symbol, o_side = ''sell'',
                       o_amount = position_size_percentage pm, o_price_offset = None,
                       o_type = ''limit'', o_delay = None, o_timestamp = now\<rparr>
            in (Return True, snd (simulate_order_placement ord rm b2)))
         else (Return True, b1))"

text \<open>
  In the order dictionary of the consolidation strategy the price offset is evaluated
  before the time stamp, so a \<^verbatim>\<open>ValueError\<close> leaves the bot as it was.
\<close>

definition execute_consolidation_strategy ::
  "string \<Rightarrow> position_mgmt \<Rightarrow> risk_mgmt \<Rightarrow> bot \<Rightarrow> outcome \<times> bot" where
  "execute_consolidation_strategy symbol pm rm b =
     (if em_type (entry_method pm) = ''limit_entry'' then
        (case parse_percentage
                (case em_price_offset (entry_method pm) of None \<Rightarrow> ''-0.1%'' | Some s \<Rightarrow> s) of
           Inl e \<Rightarrow> (Raise e, b)
         | Inr price_offset \<Rightarrow>
             (let (now, b1) = datetime_now b;
                  ord = \<lparr>o_symbol = symbol, o_side = ''buy'',
                         o_amount = position_size_percentage pm,
                         o_price_offset = Some price_offset,
                         o_type = ''limit'', o_delay = None, o_timestamp = now\<rparr>
              in (Return True, snd (simulate_order_placement ord rm b1))))
      else (Return True, b))"

definition execute_neutral_strategy ::
  "string \<Rightarrow> position_mgmt \<Rightarrow> risk_mgmt \<Rightarrow> bot \<Rightarrow> outcome \<times> bot" where
  "execute_neutral_strategy symbol pm rm b =
     (if position_size_percentage pm > 0 then
        (let (now, b1) = datetime_now b;
             ord = \<lparr>o_symbol = symbol, o_side = ''buy'',
                    o_amount = position_size_percentage pm * 0.5, o_price_offset = None,
                    o_type = ''limit'', o_delay = None, o_timestamp = now\<rparr>
         in (Return True, snd (simulate_order_placement ord rm b1)))
      else (Return True, b))"

text \<open>
  \<^verbatim>\<open>execute_strategy\<close>: the dispatch on the market phase, inside a \<^verbatim>\<open>try\<close> whose
  handler turns every exception into the result \<open>False\<close>.
\<close>

definition execute_strategy :: "string \<Rightarrow> instructions \<Rightarrow> bot \<Rightarrow> bool \<times> bot" where
  "execute_strategy symbol ins b =
     (let position_mgmt = position_management (execution_instructions ins);
          risk_mgmt = risk_management (execution_instructions ins);
          market_phase = market_phase (signal_summary ins);
          (res, b') =
            (if market_phase = ''ACCUMULATION'' then
               execute_accumulation_strategy symbol position_mgmt risk_mgmt b
             else if market_phase = ''DISTRIBUTION'' then
               execute_distribution_strategy symbol position_mgmt risk_mgmt b
             else if market_phase = ''MARKUP'' then
               execute_markup_strategy symbol position_mgmt risk_mgmt b
             else if market_phase = ''MARKDOWN'' then
               execute_markdown_strategy symbol position_mgmt risk_mgmt b
             else if market_phase = ''CONSOLIDATION'' then
               execute_consolidation_strategy symbol position_mgmt risk_mgmt b
             else execute_neutral_strategy symbol position_mgmt risk_mgmt b)
      in case res of Return r \<Rightarrow> (r, b') | Raise e \<Rightarrow> (False, b'))"

subsection \<open>Cycle orchestrator\<close>

text \<open>
  \<^verbatim>\<open>analyze_symbol\<close>. The answers of the remote service are arguments: the signal and
  the instructions (\<open>None\<close> when the request failed), and the validation.
\<close>

definition analyze_symbol ::
  "string \<Rightarrow> signal option \<Rightarrow> instructions option \<Rightarrow> validation \<Rightarrow> bot \<Rightarrow> bool \<times> bot" where
  "analyze_symbol symbol sig ins val b =
     (case sig of
        None \<Rightarrow> (False, b)
      | Some signal \<Rightarrow>
          if confidence signal < confidence_threshold b then (False, b)
          else
            (case ins of
               None \<Rightarrow> (False, b)
             | Some instructions \<Rightarrow>
                 if \<not> (case valid val of None \<Rightarrow> False | Some v \<Rightarrow> v) then (False, b)
                 else if int (length (positions b)) \<ge> max_positions b then (False, b)
                 else execute_strategy symbol instructions b))"

text \<open>
  \<^verbatim>\<open>run_trading_cycle\<close>: one analysis per symbol, in order. Each entry of the list is
  a symbol with what the service answers for it in this cycle.
\<close>

type_synonym request = "string \<times> signal option \<times> instructions option \<times> validation"

fun run_trading_cycle :: "request list \<Rightarrow> bot \<Rightarrow> bot" where
  "run_trading_cycle [] b = b"
| "run_trading_cycle ((symbol, sig, ins, val) # rest) b =
     run_trading_cycle rest (snd (analyze_symbol symbol sig ins val b))"

subsection \<open>Sequences of ledger operations\<close>

text \<open>
  A ledger operation is a call of one of the two mutating ledger methods; a sequence of
  them is applied from left to right.
\<close>

datatype ledger_op = Place order risk_mgmt | Exit position string

fun apply_op :: "ledger_op \<Rightarrow> bot \<Rightarrow> bot" where
  "apply_op (Place ord rm) b = snd (simulate_order_placement ord rm b)"
| "apply_op (Exit p reason) b = snd (simulate_position_exit p reason b)"

fun apply_ops :: "ledger_op list \<Rightarrow> bot \<Rightarrow> bot" where
  "apply_ops [] b = b"
| "apply_ops (x # xs) b = apply_ops xs (apply_op x b)"

text \<open>At most one open position per symbol.\<close>

definition one_open_per_symbol :: "bot \<Rightarrow> bool" where
  "one_open_per_symbol b = distinct (map p_symbol (positions b))"

text \<open>
  The discipline of a caller that closes before it opens: each placement of the sequence
  is made when \<^verbatim>\<open>get_position\<close> finds no open position for the order's symbol.
\<close>

fun closes_before_opening :: "ledger_op list \<Rightarrow> bot \<Rightarrow> bool" where
  "closes_before_opening [] b = True"
| "closes_before_opening (Place ord rm # xs) b =
     (get_position (o_symbol ord) b = None \<and> closes_before_opening xs (apply_op (Place ord rm) b))"
| "closes_before_opening (Exit p reason # xs) b =
     closes_before_opening xs (apply_op (Exit p reason) b)"

subsection \<open>Sample inputs\<close>

definition sample_risk :: risk_mgmt where
  "sample_risk = \<lparr>stop_loss_price = Some 48000, take_profit_levels = Some [52000, 54000]\<rparr>"

definition sample_instructions :: "string \<Rightarrow> position_mgmt \<Rightarrow> instructions" where
  "sample_instructions phase pm =
     \<lparr>signal_summary =
        \<lparr>ss_action = ''BUY'', market_phase = phase, strategy_type = ''adaptive'',
         ss_confidence = 80\<rparr>,
      execution_instructions = \<lparr>position_management = pm, risk_management = sample_risk\<rparr>\<rparr>"

definition sample_levels :: "scaling_level list" where
  "sample_levels =
     [\<lparr>sl_percentage = 40, sl_price_offset = ''-0.5%''\<rparr>,
      \<lparr>sl_percentage = 60, sl_price_offset = ''-1%''\<rparr>]"

text \<open>Position management with the scaling levels inside the entry method, as section 3 of the specification lays them out.\<close>

definition schema_scaled_entry :: position_mgmt where
  "schema_scaled_entry =
     \<lparr>entry_method =
        \<lparr>em_type = ''scaled_entry'', em_scaling_levels = Some sample_levels,
         em_price_offset = None\<rparr>,
      position_size_percentage = 0.05, pm_scaling_levels = None\<rparr>"

text \<open>Position management with the scaling levels under the key the code reads.\<close>

definition code_scaled_entry :: "scaling_level list \<Rightarrow> position_mgmt" where
  "code_scaled_entry levels =
     \<lparr>entry_method =
        \<lparr>em_type = ''scaled_entry'', em_scaling_levels = None, em_price_offset = None\<rparr>,
      position_size_percentage = 0.05, pm_scaling_levels = Some levels\<rparr>"

definition plain_entry :: "string \<Rightarrow> real \<Rightarrow> position_mgmt" where
  "plain_entry ty pct =
     \<lparr>entry_method = \<lparr>em_type = ty, em_scaling_levels = None, em_price_offset = None\<rparr>,
      position_size_percentage = pct, pm_scaling_levels = None\<rparr>"

definition sample_order :: order where
  "sample_order =
     \<lparr>o_symbol = ''BTCUSDT'', o_side = ''buy'', o_amount = 0.05, o_price_offset = None,
      o_type = ''market'', o_delay = None, o_timestamp = 7\<rparr>"

definition sample_position :: position where
  "sample_position =
     \<lparr>p_symbol = ''BTCUSDT'', p_side = ''long'', p_amount = 0.05, p_value = 500,
      p_entry_price = 50000, p_stop_loss = 48000, p_take_profit_levels = [52000, 54000],
      p_timestamp = 7, p_status = ''open''\<rparr>"

text \<open>Two scaling levels whose amounts and offsets are binary fractions of the inputs.\<close>

definition half_quarter_levels :: "scaling_level list" where
  "half_quarter_levels =
     [\<lparr>sl_percentage = 50, sl_price_offset = ''-0.5%''\<rparr>,
      \<lparr>sl_percentage = 25, sl_price_offset = ''-1%''\<rparr>]"

text \<open>A bot with one open position, of another symbol than the sample order's.\<close>

definition eth_position :: position where
  "eth_position =
     \<lparr>p_symbol = ''ETHUSDT'', p_side = ''short'', p_amount = 0.025, p_value = 250,
      p_entry_price = 50000, p_stop_loss = 52000, p_take_profit_levels = [47000],
      p_timestamp = 3, p_status = ''open''\<rparr>"

definition eth_bot :: bot where
  "eth_bot = (init_bot (\<lambda>k. k))\<lparr>positions := [eth_position]\<rparr>"

text \<open>A bot at capacity: one open position, and room for one.\<close>

definition full_bot :: bot where
  "full_bot = (init_bot (\<lambda>k. k))\<lparr>positions := [sample_position], max_positions := 1\<rparr>"

text \<open>
  Two requests of a cycle: an accumulation in six scaling levels for one symbol, and an
  immediate entry for another.
\<close>

definition six_levels_request :: request where
  "six_levels_request =
     (''BTCUSDT'', Some \<lparr>confidence = 90\<rparr>,
      Some (sample_instructions ''ACCUMULATION''
              (code_scaled_entry (sample_levels @ sample_levels @ sample_levels))),
      \<lparr>valid = Some True\<rparr>)"

definition markup_request :: request where
  "markup_request =
     (''ETHUSDT'', Some \<lparr>confidence = 90\<rparr>,
      Some (sample_instructions ''MARKUP'' (plain_entry ''immediate_entry'' 0.05)),
      \<lparr>valid = Some True\<rparr>)"

section \<open>Properties\<close>

lemmas py_float_defs = py_float_def strip_def is_space_def opt_sign_def floatnumber_def
  digitpart_def is_digit_def digit_val_def digits_value_def exponent_def ascii_lower_def
  parse_percentage_def remove_percent_def

subsection \<open>The gates of the orchestrator\<close>

text \<open>
  C9. A signal whose confidence is strictly below \<open>confidence_threshold\<close> ends the
  analysis of the symbol before any strategy runs: the analysis returns \<open>False\<close>
  whatever the instructions and the validation are, and the bot, so its open positions
  and its trade history, is what it was.
\<close>

theorem low_confidence_skips:
  "confidence signal < confidence_threshold b \<Longrightarrow>
   analyze_symbol symbol (Some signal) ins val b = (False, b)"
  by (simp add: analyze_symbol_def)

theorem low_confidence_skips_witness:
  "confidence \<lparr>confidence = 49\<rparr> < confidence_threshold (init_bot (\<lambda>k. k)) \<and>
   analyze_symbol ''BTCUSDT'' (Some \<lparr>confidence = 49\<rparr>)
     (Some (sample_instructions ''MARKUP'' (plain_entry ''immediate_entry'' 0.05)))
     \<lparr>valid = Some True\<rparr> (init_bot (\<lambda>k. k)) = (False, init_bot (\<lambda>k. k))"
  using low_confidence_skips [of "\<lparr>confidence = 49\<rparr>" "init_bot (\<lambda>k. k)" "''BTCUSDT''"
      "Some (sample_instructions ''MARKUP'' (plain_entry ''immediate_entry'' 0.05))"
      "\<lparr>valid = Some True\<rparr>"]
  by (simp add: init_bot_def)

text \<open>
  C10. When the number of open positions is at least \<open>max_positions\<close> as a symbol is
  analysed, the analysis returns \<open>False\<close> before the strategy runs, whatever the phase
  of the instructions (DISTRIBUTION and MARKDOWN too): no position is closed and no
  trade is recorded.
\<close>

theorem at_capacity_no_exit:
  "max_positions b \<le> int (length (positions b)) \<Longrightarrow>
   analyze_symbol symbol sig ins val b = (False, b)"
  by (simp add: analyze_symbol_def split: option.splits)

theorem at_capacity_no_exit_witness:
  "max_positions full_bot \<le> int (length (positions full_bot)) \<and>
   get_position ''BTCUSDT'' full_bot = Some sample_position \<and>
   analyze_symbol ''BTCUSDT'' (Some \<lparr>confidence = 90\<rparr>)
     (Some (sample_instructions ''DISTRIBUTION'' (plain_entry ''immediate_entry'' 0)))
     \<lparr>valid = Some True\<rparr> full_bot = (False, full_bot)"
  using at_capacity_no_exit [of full_bot "''BTCUSDT''" "Some \<lparr>confidence = 90\<rparr>"
      "Some (sample_instructions ''DISTRIBUTION'' (plain_entry ''immediate_entry'' 0))"
      "\<lparr>valid = Some True\<rparr>"]
  by (simp add: full_bot_def init_bot_def get_position_def sample_position_def)

text \<open>
  The position gate is evaluated once per symbol, before the strategy runs. A bot that
  is at capacity is left as it is by every analysis, so by every cycle.
\<close>

lemma analyze_symbol_full:
  "max_positions b \<le> int (length (positions b)) \<Longrightarrow>
   snd (analyze_symbol symbol sig ins val b) = b"
  by (simp add: analyze_symbol_def split: option.splits)

lemma run_trading_cycle_full:
  "max_positions b \<le> int (length (positions b)) \<Longrightarrow> run_trading_cycle reqs b = b"
proof (induction reqs)
  case Nil
  show ?case by simp
next
  case (Cons r reqs)
  obtain symbol sig ins val where r: "r = (symbol, sig, ins, val)"
    by (cases r) auto
  from Cons show ?case
    by (simp add: r analyze_symbol_full)
qed

lemma run_trading_cycle_append:
  "run_trading_cycle (xs @ ys) b = run_trading_cycle ys (run_trading_cycle xs b)"
proof (induction xs arbitrary: b)
  case Nil
  show ?case by simp
next
  case (Cons r xs)
  obtain symbol sig ins val where r: "r = (symbol, sig, ins, val)"
    by (cases r) auto
  from Cons show ?case by (simp add: r)
qed

lemma six_levels_run:
  "length (positions (run_trading_cycle [six_levels_request] (init_bot (\<lambda>k. k)))) = 6 \<and>
   max_positions (run_trading_cycle [six_levels_request] (init_bot (\<lambda>k. k))) = 5"
  by (simp add: six_levels_request_def init_bot_def analyze_symbol_def execute_strategy_def
      sample_instructions_def code_scaled_entry_def sample_levels_def
      execute_accumulation_strategy_def py_float_defs datetime_now_def
      simulate_order_placement_def sample_risk_def Let_def)

text \<open>
  C3, as amended. If, after the symbols analysed so far in a cycle, the number of open
  positions is at least \<open>max_positions\<close>, the rest of the cycle changes nothing: no
  position is opened (or closed) for any later symbol, whatever its signal and
  instructions. The count is compared at the start of a symbol's strategy execution
  only, not between the orders of one execution.
\<close>

theorem gate_holds_for_rest_of_cycle:
  "max_positions (run_trading_cycle seen b)
     \<le> int (length (positions (run_trading_cycle seen b))) \<Longrightarrow>
   run_trading_cycle (seen @ rest) b = run_trading_cycle seen b"
  by (simp add: run_trading_cycle_append run_trading_cycle_full)

theorem gate_holds_for_rest_of_cycle_witness:
  "max_positions (run_trading_cycle [six_levels_request] (init_bot (\<lambda>k. k)))
     \<le> int (length (positions (run_trading_cycle [six_levels_request] (init_bot (\<lambda>k. k))))) \<and>
   run_trading_cycle ([six_levels_request] @ [markup_request]) (init_bot (\<lambda>k. k)) =
   run_trading_cycle [six_levels_request] (init_bot (\<lambda>k. k))"
proof -
  have h: "max_positions (run_trading_cycle [six_levels_request] (init_bot (\<lambda>k. k)))
     \<le> int (length (positions (run_trading_cycle [six_levels_request] (init_bot (\<lambda>k. k)))))"
    using six_levels_run by simp
  from gate_holds_for_rest_of_cycle [OF h, of "[markup_request]"] h show ?thesis by simp
qed

text \<open>
  C3 as stated fails: from an empty ledger with \<open>max_positions = 5\<close>, one
  accumulation in six scaling levels opens six positions in one cycle, so a position is
  opened after the count has reached five.
\<close>

theorem position_gate_counterexample:
  "max_positions (init_bot (\<lambda>k. k)) = 5 \<and>
   length (positions (init_bot (\<lambda>k. k))) = 0 \<and>
   length (positions (run_trading_cycle [six_levels_request] (init_bot (\<lambda>k. k)))) = 6"
  using six_levels_run by (simp add: init_bot_def)

subsection \<open>The position ledger\<close>

text \<open>
  C4, as amended. Closing a position that is not open does not fail:
  \<^verbatim>\<open>simulate_position_exit\<close> returns \<open>True\<close>, leaves the open positions as they
  are, and appends a close trade for the position to the trade history.
\<close>

theorem exit_of_absent_position:
  "p \<notin> set (positions b) \<Longrightarrow>
   simulate_position_exit p reason b =
     (True, b\<lparr>ticks := Suc (ticks b),
              trade_history := trade_history b @
                [\<lparr>t_symbol = p_symbol p, t_action = ''close'', t_side = p_side p,
                  t_amount = p_amount p, t_price = p_entry_price p * 1.02,
                  t_reason = Some reason, t_timestamp = clock b (ticks b)\<rparr>]\<rparr>)"
proof -
  assume "p \<notin> set (positions b)"
  then have "filter (\<lambda>q. q \<noteq> p) (positions b) = positions b"
    by (simp add: filter_id_conv) metis
  then show ?thesis
    by (simp add: simulate_position_exit_def datetime_now_def Let_def)
qed

theorem exit_of_absent_position_witness:
  "sample_position \<notin> set (positions (init_bot (\<lambda>k. k))) \<and>
   simulate_position_exit sample_position ''manual'' (init_bot (\<lambda>k. k)) =
     (True, (init_bot (\<lambda>k. k))\<lparr>ticks := 1,
        trade_history :=
          [\<lparr>t_symbol = ''BTCUSDT'', t_action = ''close'', t_side = ''long'', t_amount = 0.05,
            t_price = 51000, t_reason = Some ''manual'', t_timestamp = 0\<rparr>]\<rparr>)"
  using exit_of_absent_position [of sample_position "init_bot (\<lambda>k. k)" "''manual''"]
  by (simp add: init_bot_def sample_position_def)

text \<open>
  C4 as stated fails: on a bot with no open position the exit of a position succeeds
  and the trade history, empty before, holds a close trade afterwards.
\<close>

theorem exit_of_absent_position_counterexample:
  "sample_position \<notin> set (positions (init_bot (\<lambda>k. k))) \<and>
   trade_history (init_bot (\<lambda>k. k)) = [] \<and>
   fst (simulate_position_exit sample_position ''manual'' (init_bot (\<lambda>k. k))) = True \<and>
   trade_history (snd (simulate_position_exit sample_position ''manual'' (init_bot (\<lambda>k. k)))) =
     [\<lparr>t_symbol = ''BTCUSDT'', t_action = ''close'', t_side = ''long'', t_amount = 0.05,
       t_price = 51000, t_reason = Some ''manual'', t_timestamp = 0\<rparr>]"
  by (simp add: simulate_position_exit_def datetime_now_def Let_def init_bot_def
      sample_position_def)

text \<open>
  C5. When an order placement succeeds, the position \<open>p\<close> it opened is the last open
  position and carries the order's symbol; closing \<open>p\<close> then succeeds and removes
  \<open>p\<close>, and nothing but \<open>p\<close>, from the open positions: what is left is the open
  positions from before the placement without those equal to \<open>p\<close>, in their order.
  The trade history has grown by exactly two trades: the open trade and then the close
  trade, both with the symbol and the side of \<open>p\<close>, the close trade priced at the
  entry price times 1.02.
\<close>

theorem open_close_round_trip:
  assumes "simulate_order_placement ord rm b = (True, b1)"
    and "p = last (positions b1)"
    and "simulate_position_exit p reason b1 = (ok, b2)"
  shows "positions b1 = positions b @ [p] \<and> p_symbol p = o_symbol ord \<and>
         ok \<and> p \<notin> set (positions b2) \<and>
         positions b2 = filter (\<lambda>q. q \<noteq> p) (positions b) \<and>
         trade_history b2 = trade_history b @
           [\<lparr>t_symbol = p_symbol p, t_action = ''open'', t_side = p_side p,
             t_amount = o_amount ord, t_price = p_entry_price p, t_reason = None,
             t_timestamp = o_timestamp ord\<rparr>,
            \<lparr>t_symbol = p_symbol p, t_action = ''close'', t_side = p_side p,
             t_amount = o_amount ord, t_price = p_entry_price p * 1.02,
             t_reason = Some reason, t_timestamp = clock b (ticks b)\<rparr>]"
  using assms
  by (auto simp: simulate_order_placement_def simulate_position_exit_def datetime_now_def Let_def
      split: option.splits)

theorem open_close_round_trip_witness:
  "simulate_order_placement sample_order sample_risk eth_bot =
     (True, eth_bot\<lparr>placed := [sample_order], positions := [eth_position, sample_position],
        trade_history := [\<lparr>t_symbol = ''BTCUSDT'', t_action = ''open'', t_side = ''long'',
             t_amount = 0.05, t_price = 50000, t_reason = None, t_timestamp = 7\<rparr>]\<rparr>) \<and>
   positions (snd (simulate_position_exit sample_position ''take_profit''
      (snd (simulate_order_placement sample_order sample_risk eth_bot)))) = [eth_position] \<and>
   trade_history (snd (simulate_position_exit sample_position ''take_profit''
      (snd (simulate_order_placement sample_order sample_risk eth_bot)))) =
     [\<lparr>t_symbol = ''BTCUSDT'', t_action = ''open'', t_side = ''long'',
             t_amount = 0.05, t_price = 50000, t_reason = None, t_timestamp = 7\<rparr>,
      \<lparr>t_symbol = ''BTCUSDT'', t_action = ''close'', t_side = ''long'',
             t_amount = 0.05, t_price = 51000, t_reason = Some ''take_profit'', t_timestamp = 0\<rparr>]"
proof -
  let ?b1 = "eth_bot\<lparr>placed := [sample_order], positions := [eth_position, sample_position],
        trade_history := [\<lparr>t_symbol = ''BTCUSDT'', t_action = ''open'', t_side = ''long'',
             t_amount = 0.05, t_price = 50000, t_reason = None, t_timestamp = 7\<rparr>]\<rparr>"
  have h1: "simulate_order_placement sample_order sample_risk eth_bot = (True, ?b1)"
    by (simp add: simulate_order_placement_def eth_bot_def init_bot_def sample_order_def
        sample_risk_def sample_position_def Let_def)
  have h2: "sample_position = last (positions ?b1)" by simp
  obtain ok b2 where h3: "simulate_position_exit sample_position ''take_profit'' ?b1 = (ok, b2)"
    by (cases "simulate_position_exit sample_position ''take_profit'' ?b1") auto
  from open_close_round_trip [OF h1 h2 h3] h1 h3 show ?thesis
    by (simp add: eth_bot_def init_bot_def sample_order_def sample_position_def
        eth_position_def)
qed

text \<open>
  The ledger appends on every placement and never looks for an open position of the
  symbol. What keeps one open position per symbol is the caller closing before it opens.
\<close>

lemma find_filter_other:
  assumes "distinct (map f ps)" and "find (\<lambda>q. f q = s) ps = Some p"
  shows "find (\<lambda>q. f q = s) (filter (\<lambda>q. q \<noteq> p) ps) = None"
proof -
  from assms(2) have p: "p \<in> set ps" "f p = s"
    by (auto simp: find_Some_iff)
  from assms(1) have "inj_on f (set ps)" by (simp add: distinct_map)
  with p have "\<forall>q\<in>set ps. f q = s \<longrightarrow> q = p"
    by (auto dest: inj_onD)
  then show ?thesis by (auto simp: find_None_iff)
qed

lemma find_None_symbol:
  "find (\<lambda>p. p_symbol p = s) ps = None \<Longrightarrow> s \<notin> p_symbol ` set ps"
  by (auto simp: find_None_iff)

lemma place_keeps_one_open:
  assumes "one_open_per_symbol b" and "get_position (o_symbol ord) b = None"
  shows "one_open_per_symbol (snd (simulate_order_placement ord rm b))"
  using assms find_None_symbol [of "o_symbol ord" "positions b"]
  by (auto simp: one_open_per_symbol_def get_position_def simulate_order_placement_def Let_def
      split: option.splits)

lemma exit_keeps_one_open:
  assumes "one_open_per_symbol b"
  shows "one_open_per_symbol (snd (simulate_position_exit p reason b))"
  using assms
  by (simp add: one_open_per_symbol_def simulate_position_exit_def datetime_now_def Let_def
      distinct_map_filter)

lemma exit_clears_symbol:
  assumes "one_open_per_symbol b" and "get_position symbol b = Some p"
  shows "get_position symbol (snd (simulate_position_exit p reason b)) = None"
  using find_filter_other [of p_symbol "positions b" symbol p] assms
  by (simp add: one_open_per_symbol_def get_position_def simulate_position_exit_def
      datetime_now_def Let_def)

lemma tick_one_open:
  "one_open_per_symbol (b\<lparr>ticks := n\<rparr>) = one_open_per_symbol b"
  "get_position s (b\<lparr>ticks := n\<rparr>) = get_position s b"
  by (simp_all add: one_open_per_symbol_def get_position_def)

lemma distribution_keeps_one_open:
  assumes "one_open_per_symbol b"
  shows "one_open_per_symbol (snd (execute_distribution_strategy symbol pm rm b))"
proof (cases "get_position symbol b")
  case None
  with assms show ?thesis
    by (simp add: execute_distribution_strategy_def datetime_now_def Let_def
        place_keeps_one_open tick_one_open)
next
  case (Some p)
  let ?b1 = "snd (simulate_position_exit p ''distribution_exit'' b)"
  have a: "one_open_per_symbol ?b1" using assms by (rule exit_keeps_one_open)
  have c: "get_position symbol ?b1 = None" using assms Some by (rule exit_clears_symbol)
  from a c Some show ?thesis
    by (simp add: execute_distribution_strategy_def datetime_now_def Let_def
        place_keeps_one_open tick_one_open)
qed

lemma apply_ops_keeps_one_open:
  "one_open_per_symbol b \<Longrightarrow> closes_before_opening ops b \<Longrightarrow>
   one_open_per_symbol (apply_ops ops b)"
proof (induction ops arbitrary: b)
  case Nil
  then show ?case by simp
next
  case (Cons x ops)
  show ?case
  proof (cases x)
    case (Place ord rm)
    with Cons.prems have "one_open_per_symbol (apply_op x b)"
      by (simp add: place_keeps_one_open)
    with Cons.IH [of "apply_op x b"] Cons.prems Place show ?thesis by simp
  next
    case (Exit p reason)
    with Cons.prems have "one_open_per_symbol (apply_op x b)"
      by (simp add: exit_keeps_one_open)
    with Cons.IH [of "apply_op x b"] Cons.prems Exit show ?thesis by simp
  qed
qed

text \<open>
  C1, as amended. Starting from a bot with at most one open position per symbol: after
  every sequence of order placements and position exits in which each placement is made
  when no position of the order's symbol is open, there is still at most one open
  position per symbol; and so there is after a DISTRIBUTION execution, which closes the
  symbol's open position before it places its order. The ledger itself rejects nothing.
\<close>

theorem one_open_per_symbol_kept:
  assumes "one_open_per_symbol b"
  shows "(closes_before_opening ops b \<longrightarrow> one_open_per_symbol (apply_ops ops b)) \<and>
         one_open_per_symbol (snd (execute_distribution_strategy symbol pm rm b))"
  using assms by (simp add: apply_ops_keeps_one_open distribution_keeps_one_open)

theorem one_open_per_symbol_kept_witness:
  "one_open_per_symbol full_bot \<and>
   closes_before_opening [Exit sample_position ''rebalance'', Place sample_order sample_risk]
     full_bot \<and>
   one_open_per_symbol
     (apply_ops [Exit sample_position ''rebalance'', Place sample_order sample_risk] full_bot) \<and>
   positions (apply_ops [Exit sample_position ''rebalance'', Place sample_order sample_risk]
     full_bot) = [sample_position] \<and>
   one_open_per_symbol (snd (execute_distribution_strategy ''BTCUSDT''
      (plain_entry ''immediate_entry'' 0.05) sample_risk full_bot)) \<and>
   map (\<lambda>p. (p_symbol p, p_side p)) (positions (snd (execute_distribution_strategy ''BTCUSDT''
      (plain_entry ''immediate_entry'' 0.05) sample_risk full_bot))) = [(''BTCUSDT'', ''short'')]"
proof -
  have a: "one_open_per_symbol full_bot"
    by (simp add: one_open_per_symbol_def full_bot_def init_bot_def)
  have c: "closes_before_opening [Exit sample_position ''rebalance'',
      Place sample_order sample_risk] full_bot"
    by (simp add: full_bot_def init_bot_def get_position_def simulate_position_exit_def
        datetime_now_def sample_order_def Let_def)
  have p: "positions (apply_ops [Exit sample_position ''rebalance'',
      Place sample_order sample_risk] full_bot) = [sample_position]"
    by (simp add: full_bot_def init_bot_def simulate_order_placement_def
        simulate_position_exit_def datetime_now_def sample_order_def sample_risk_def
        sample_position_def Let_def)
  have d: "map (\<lambda>p. (p_symbol p, p_side p)) (positions (snd (execute_distribution_strategy
      ''BTCUSDT'' (plain_entry ''immediate_entry'' 0.05) sample_risk full_bot))) =
      [(''BTCUSDT'', ''short'')]"
    by (simp add: execute_distribution_strategy_def plain_entry_def full_bot_def init_bot_def
        get_position_def simulate_order_placement_def simulate_position_exit_def
        datetime_now_def sample_risk_def sample_position_def Let_def)
  from one_open_per_symbol_kept [OF a, of "[Exit sample_position ''rebalance'',
      Place sample_order sample_risk]" "''BTCUSDT''"
      "plain_entry ''immediate_entry'' 0.05" sample_risk] a c p d
  show ?thesis by simp
qed

text \<open>
  C1 as stated fails: two placements for one symbol, with no exit between them, leave
  two open positions of that symbol; so does one ACCUMULATION execution with two
  scaling levels.
\<close>

theorem one_per_symbol_counterexample:
  "\<not> one_open_per_symbol
       (apply_ops [Place sample_order sample_risk, Place sample_order sample_risk]
          (init_bot (\<lambda>k. k))) \<and>
   map p_symbol (positions
       (apply_ops [Place sample_order sample_risk, Place sample_order sample_risk]
          (init_bot (\<lambda>k. k)))) = [''BTCUSDT'', ''BTCUSDT''] \<and>
   map p_symbol (positions (snd (execute_strategy ''BTCUSDT''
       (sample_instructions ''ACCUMULATION'' (code_scaled_entry sample_levels))
       (init_bot (\<lambda>k. k))))) = [''BTCUSDT'', ''BTCUSDT'']"
  by (simp add: one_open_per_symbol_def init_bot_def simulate_order_placement_def
      sample_order_def sample_risk_def Let_def execute_strategy_def sample_instructions_def
      code_scaled_entry_def sample_levels_def execute_accumulation_strategy_def
      py_float_defs datetime_now_def)

subsection \<open>The strategies\<close>

text \<open>
  C6. A DISTRIBUTION execution for a symbol that has an open position \<open>p\<close>, with
  \<open>position_size.percentage = 0\<close>, returns \<open>True\<close>; it closes \<open>p\<close> with the reason
  \<^verbatim>\<open>distribution_exit\<close> (the positions equal to \<open>p\<close> leave the open set, one close
  trade is appended) and hands no order to the ledger: \<open>placed\<close> is unchanged.
\<close>

theorem distribution_closes_without_order:
  assumes "market_phase (signal_summary ins) = ''DISTRIBUTION''"
    and "get_position symbol b = Some p"
    and "position_size_percentage (position_management (execution_instructions ins)) = 0"
  shows "execute_strategy symbol ins b =
     (True, b\<lparr>positions := filter (\<lambda>q. q \<noteq> p) (positions b),
              ticks := Suc (ticks b),
              trade_history := trade_history b @
                [\<lparr>t_symbol = p_symbol p, t_action = ''close'', t_side = p_side p,
                  t_amount = p_amount p, t_price = p_entry_price p * 1.02,
                  t_reason = Some ''distribution_exit'', t_timestamp = clock b (ticks b)\<rparr>]\<rparr>)"
  using assms
  by (simp add: execute_strategy_def execute_distribution_strategy_def
      simulate_position_exit_def datetime_now_def Let_def)

theorem distribution_closes_without_order_witness:
  "market_phase (signal_summary
      (sample_instructions ''DISTRIBUTION'' (plain_entry ''immediate_entry'' 0))) =
     ''DISTRIBUTION'' \<and>
   get_position ''BTCUSDT'' full_bot = Some sample_position \<and>
   execute_strategy ''BTCUSDT''
      (sample_instructions ''DISTRIBUTION'' (plain_entry ''immediate_entry'' 0)) full_bot =
     (True, full_bot\<lparr>positions := [], ticks := 1,
        trade_history :=
          [\<lparr>t_symbol = ''BTCUSDT'', t_action = ''close'', t_side = ''long'', t_amount = 0.05,
            t_price = 51000, t_reason = Some ''distribution_exit'', t_timestamp = 0\<rparr>]\<rparr>)"
  using distribution_closes_without_order
      [of "sample_instructions ''DISTRIBUTION'' (plain_entry ''immediate_entry'' 0)"
          "''BTCUSDT''" full_bot sample_position]
  by (simp add: sample_instructions_def plain_entry_def full_bot_def init_bot_def
      get_position_def sample_position_def)

text \<open>
  C7. When the market phase is none of ACCUMULATION, DISTRIBUTION, MARKUP, MARKDOWN and
  CONSOLIDATION (so for NEUTRAL and for every unrecognized phase string), strategy
  execution takes the neutral arm and returns \<open>True\<close>, not an error: with
  \<open>position_size.percentage > 0\<close> it hands exactly one order to the ledger, a limit buy
  of amount \<open>percentage * 0.5\<close>; with a percentage of 0 (or below) it hands over none
  and leaves the bot unchanged.
\<close>

theorem unrecognized_phase_is_neutral:
  assumes "market_phase (signal_summary ins) \<notin>
             {''ACCUMULATION'', ''DISTRIBUTION'', ''MARKUP'', ''MARKDOWN'', ''CONSOLIDATION''}"
  shows "(0 < position_size_percentage (position_management (execution_instructions ins)) \<longrightarrow>
            fst (execute_strategy symbol ins b) = True \<and>
            placed (snd (execute_strategy symbol ins b)) = placed b @
              [\<lparr>o_symbol = symbol, o_side = ''buy'',
                o_amount =
                  position_size_percentage (position_management (execution_instructions ins)) * 0.5,
                o_price_offset = None, o_type = ''limit'', o_delay = None,
                o_timestamp = clock b (ticks b)\<rparr>]) \<and>
         (position_size_percentage (position_management (execution_instructions ins)) \<le> 0 \<longrightarrow>
            execute_strategy symbol ins b = (True, b))"
  using assms
  by (auto simp: execute_strategy_def execute_neutral_strategy_def
      simulate_order_placement_def datetime_now_def Let_def split: option.splits)

theorem unrecognized_phase_is_neutral_witness:
  "placed (snd (execute_strategy ''BTCUSDT''
      (sample_instructions ''NEUTRAL'' (plain_entry ''any'' 0.04)) (init_bot (\<lambda>k. k)))) =
     [\<lparr>o_symbol = ''BTCUSDT'', o_side = ''buy'', o_amount = 0.02, o_price_offset = None,
       o_type = ''limit'', o_delay = None, o_timestamp = 0\<rparr>] \<and>
   placed (snd (execute_strategy ''BTCUSDT''
      (sample_instructions ''SIDEWAYS'' (plain_entry ''any'' 0.04)) (init_bot (\<lambda>k. k)))) =
     [\<lparr>o_symbol = ''BTCUSDT'', o_side = ''buy'', o_amount = 0.02, o_price_offset = None,
       o_type = ''limit'', o_delay = None, o_timestamp = 0\<rparr>] \<and>
   execute_strategy ''BTCUSDT''
      (sample_instructions ''NEUTRAL'' (plain_entry ''any'' 0)) (init_bot (\<lambda>k. k)) =
     (True, init_bot (\<lambda>k. k))"
  using
    unrecognized_phase_is_neutral
      [of "sample_instructions ''NEUTRAL'' (plain_entry ''any'' 0.04)" "''BTCUSDT''"
          "init_bot (\<lambda>k. k)"]
    unrecognized_phase_is_neutral
      [of "sample_instructions ''SIDEWAYS'' (plain_entry ''any'' 0.04)" "''BTCUSDT''"
          "init_bot (\<lambda>k. k)"]
    unrecognized_phase_is_neutral
      [of "sample_instructions ''NEUTRAL'' (plain_entry ''any'' 0)" "''BTCUSDT''"
          "init_bot (\<lambda>k. k)"]
  by (simp add: sample_instructions_def plain_entry_def init_bot_def)

text \<open>
  The scaled entry: a placement changes neither the clock nor the count of its reads,
  and the loop hands over one order per level when every price offset parses.
\<close>

lemma simulate_order_placement_frame:
  "placed (snd (simulate_order_placement ord rm b)) = placed b @ [ord] \<and>
   clock (snd (simulate_order_placement ord rm b)) = clock b \<and>
   ticks (snd (simulate_order_placement ord rm b)) = ticks b"
  by (simp add: simulate_order_placement_def Let_def split: option.splits)

lemma accumulation_loop_orders:
  "\<forall>l\<in>set levels. parse_percentage (sl_price_offset l) \<noteq> Inl ValueError \<Longrightarrow>
   fst (accumulation_loop symbol ps rm i levels b) = None \<and>
   placed (snd (accumulation_loop symbol ps rm i levels b)) = placed b @
     map (\<lambda>k. \<lparr>o_symbol = symbol, o_side = ''buy'',
               o_amount = ps * (sl_percentage (levels ! k) / 100),
               o_price_offset = Some (projr (parse_percentage (sl_price_offset (levels ! k)))),
               o_type = ''limit'', o_delay = Some ((i + k) * 900),
               o_timestamp = clock b (ticks b + k)\<rparr>) [0..<length levels]"
proof (induction levels arbitrary: i b)
  case Nil
  show ?case by simp
next
  case (Cons l levels)
  from Cons.prems obtain v where v: "parse_percentage (sl_price_offset l) = Inr v"
    by (cases "parse_percentage (sl_price_offset l)")
      (auto simp: parse_percentage_def split: option.splits)
  from Cons.prems
  have rest: "\<forall>l\<in>set levels. parse_percentage (sl_price_offset l) \<noteq> Inl ValueError"
    by simp
  define ord where
    "ord = \<lparr>o_symbol = symbol, o_side = ''buy'', o_amount = ps * (sl_percentage l / 100),
            o_price_offset = Some v, o_type = ''limit'', o_delay = Some (i * 900),
            o_timestamp = clock b (ticks b)\<rparr>"
  define b1 where "b1 = snd (simulate_order_placement ord rm (b\<lparr>ticks := Suc (ticks b)\<rparr>))"
  have step: "accumulation_loop symbol ps rm i (l # levels) b =
              accumulation_loop symbol ps rm (Suc i) levels b1"
    by (simp add: v datetime_now_def Let_def b1_def ord_def)
  have fr: "placed b1 = placed b @ [ord]" "clock b1 = clock b" "ticks b1 = Suc (ticks b)"
    using simulate_order_placement_frame [of ord rm "b\<lparr>ticks := Suc (ticks b)\<rparr>"]
    by (simp_all add: b1_def)
  have hd: "ord = \<lparr>o_symbol = symbol, o_side = ''buy'',
               o_amount = ps * (sl_percentage ((l # levels) ! 0) / 100),
               o_price_offset =
                 Some (projr (parse_percentage (sl_price_offset ((l # levels) ! 0)))),
               o_type = ''limit'', o_delay = Some ((i + 0) * 900),
               o_timestamp = clock b (ticks b + 0)\<rparr>"
    by (simp add: ord_def v)
  from Cons.IH [OF rest, of "Suc i" b1] show ?case
    unfolding step by (simp add: fr hd map_upt_Suc del: upt_Suc)
qed

text \<open>
  C2, as amended. For an ACCUMULATION execution with entry method
  \<^verbatim>\<open>scaled_entry\<close> whose \<open>N\<close> scaling levels stand under the key
  \<^verbatim>\<open>scaling_levels\<close> of \<^verbatim>\<open>position_management\<close> itself (beside
  \<^verbatim>\<open>entry_method\<close>, not inside it), and whose price offsets all parse: the
  execution returns \<open>True\<close> and hands exactly \<open>N\<close> orders to the ledger, in the order
  of the levels, each a limit buy, the \<open>i\<close>-th with amount
  \<open>position_size.percentage * (level\<^sub>i.percentage / 100)\<close>, the parsed price offset of
  level \<open>i\<close>, and delay \<open>900 * i\<close>.
\<close>

theorem accumulation_orders:
  assumes "market_phase (signal_summary ins) = ''ACCUMULATION''"
    and "em_type (entry_method (position_management (execution_instructions ins))) =
           ''scaled_entry''"
    and "pm_scaling_levels (position_management (execution_instructions ins)) = Some levels"
    and "\<forall>l\<in>set levels. parse_percentage (sl_price_offset l) \<noteq> Inl ValueError"
  shows "fst (execute_strategy symbol ins b) = True \<and>
         placed (snd (execute_strategy symbol ins b)) = placed b @
           map (\<lambda>i. \<lparr>o_symbol = symbol, o_side = ''buy'',
                     o_amount =
                       position_size_percentage (position_management (execution_instructions ins)) *
                       (sl_percentage (levels ! i) / 100),
                     o_price_offset =
                       Some (projr (parse_percentage (sl_price_offset (levels ! i)))),
                     o_type = ''limit'', o_delay = Some (900 * i),
                     o_timestamp = clock b (ticks b + i)\<rparr>) [0..<length levels]"
proof -
  let ?pm = "position_management (execution_instructions ins)"
  let ?rm = "risk_management (execution_instructions ins)"
  let ?r = "accumulation_loop symbol (position_size_percentage ?pm) ?rm 0 levels b"
  from accumulation_loop_orders [OF assms(4), of symbol "position_size_percentage ?pm" ?rm 0 b]
  have l: "fst ?r = None" and p: "placed (snd ?r) = placed b @
     map (\<lambda>k. \<lparr>o_symbol = symbol, o_side = ''buy'',
               o_amount = position_size_percentage ?pm * (sl_percentage (levels ! k) / 100),
               o_price_offset = Some (projr (parse_percentage (sl_price_offset (levels ! k)))),
               o_type = ''limit'', o_delay = Some (900 * k),
               o_timestamp = clock b (ticks b + k)\<rparr>) [0..<length levels]"
    by (simp_all add: mult.commute)
  have e: "execute_strategy symbol ins b = (True, snd ?r)"
    using assms(1-3) l
    by (cases ?r) (simp add: execute_strategy_def execute_accumulation_strategy_def Let_def)
  show ?thesis unfolding e using p by simp
qed

theorem accumulation_orders_witness:
  "placed (snd (execute_strategy ''BTCUSDT''
      (sample_instructions ''ACCUMULATION'' (code_scaled_entry half_quarter_levels))
      (init_bot (\<lambda>k. k)))) =
     [\<lparr>o_symbol = ''BTCUSDT'', o_side = ''buy'', o_amount = 0.025,
       o_price_offset = Some (Finite (- 0.005)), o_type = ''limit'', o_delay = Some 0,
       o_timestamp = 0\<rparr>,
      \<lparr>o_symbol = ''BTCUSDT'', o_side = ''buy'', o_amount = 0.0125,
       o_price_offset = Some (Finite (- 0.01)), o_type = ''limit'', o_delay = Some 900,
       o_timestamp = 1\<rparr>] \<and>
   fst (execute_strategy ''BTCUSDT''
      (sample_instructions ''ACCUMULATION'' (code_scaled_entry half_quarter_levels))
      (init_bot (\<lambda>k. k))) = True"
proof -
  have p: "\<forall>l\<in>set half_quarter_levels. parse_percentage (sl_price_offset l) \<noteq> Inl ValueError"
    by (simp add: half_quarter_levels_def py_float_defs)
  have v: "parse_percentage ''-0.5%'' = Inr (Finite (- 0.005))"
          "parse_percentage ''-1%'' = Inr (Finite (- 0.01))"
    by (simp_all add: py_float_defs)
  have u: "[0..<2] = [0, Suc 0]" by (simp add: upt_rec)
  from accumulation_orders
      [of "sample_instructions ''ACCUMULATION'' (code_scaled_entry half_quarter_levels)"
          half_quarter_levels "''BTCUSDT''" "init_bot (\<lambda>k. k)", OF _ _ _ p]
  show ?thesis
    by (simp add: sample_instructions_def code_scaled_entry_def half_quarter_levels_def
        init_bot_def v u)
qed

text \<open>
  C2 as stated fails: with the two scaling levels inside the entry method, as section 3
  of the specification lays them out, the accumulation strategy raises
  \<^verbatim>\<open>KeyError\<close>, strategy execution returns \<open>False\<close>, and no order is handed over.
\<close>

theorem accumulation_schema_counterexample:
  "em_type (entry_method schema_scaled_entry) = ''scaled_entry'' \<and>
   em_scaling_levels (entry_method schema_scaled_entry) = Some sample_levels \<and>
   length sample_levels = 2 \<and>
   execute_accumulation_strategy ''BTCUSDT'' schema_scaled_entry sample_risk (init_bot (\<lambda>k. k)) =
     (Raise KeyError, init_bot (\<lambda>k. k)) \<and>
   execute_strategy ''BTCUSDT'' (sample_instructions ''ACCUMULATION'' schema_scaled_entry)
     (init_bot (\<lambda>k. k)) = (False, init_bot (\<lambda>k. k)) \<and>
   placed (init_bot (\<lambda>k. k)) = []"
  by (simp add: schema_scaled_entry_def sample_levels_def execute_accumulation_strategy_def
      execute_strategy_def sample_instructions_def init_bot_def)

subsection \<open>Percentage strings\<close>

text \<open>
  The parser \<open>py_float\<close> accepts exactly the numeric strings: each parsing function
  succeeds on the strings of its production (it consumes a digitpart greedily, which
  loses nothing because no production continues a digitpart with a digit or an
  underscore), and on no others.
\<close>

lemma is_digit_not_punct:
  "is_digit c \<Longrightarrow> c \<noteq> CHR ''_'' \<and> c \<noteq> CHR ''.'' \<and> c \<noteq> CHR ''+'' \<and> c \<noteq> CHR ''-'' \<and>
     c \<noteq> CHR ''e'' \<and> c \<noteq> CHR ''E''"
  by (auto simp: is_digit_def)

lemma digitpart_tail_complete:
  "digit_tail_str t \<Longrightarrow> no_digit_ahead r \<Longrightarrow> \<exists>ds. digitpart_tail (t @ r) = (ds, r)"
proof (induction t rule: digit_tail_str.induct)
  case dt_Nil
  then show ?case
    by (cases r rule: digitpart_tail.cases) (auto simp: no_digit_ahead_def)
next
  case (dt_Digit c s)
  then obtain ds where ds: "digitpart_tail (s @ r) = (ds, r)" by auto
  show ?case
  proof (cases "s @ r")
    case Nil
    with dt_Digit show ?thesis by simp
  next
    case (Cons d cs)
    with ds dt_Digit(1) show ?thesis by simp
  qed
next
  case (dt_Under c s)
  then obtain ds where ds: "digitpart_tail (s @ r) = (ds, r)" by auto
  with dt_Under(1) show ?case by (simp add: is_digit_def)
qed

lemma digitpart_tail_sound:
  "digitpart_tail s = (ds, r) \<Longrightarrow> \<exists>t. digit_tail_str t \<and> s = t @ r"
proof (induction s arbitrary: ds r rule: digitpart_tail.induct)
  case 1
  then show ?case by (auto intro: digit_tail_str.intros)
next
  case (2 c)
  then show ?case
    by (auto split: if_splits intro: digit_tail_str.intros dt_Digit [OF _ dt_Nil, of c])
next
  case (3 c d cs)
  show ?case
  proof (cases "is_digit c")
    case True
    obtain ds' r' where e: "digitpart_tail (d # cs) = (ds', r')"
      by (cases "digitpart_tail (d # cs)") auto
    with True 3(3) have r: "r = r'" by simp
    from 3(1) [OF True e] obtain t where "digit_tail_str t" "d # cs = t @ r'" by auto
    with True r show ?thesis
      by (auto intro!: exI [of _ "c # t"] digit_tail_str.intros)
  next
    case False
    show ?thesis
    proof (cases "c = CHR ''_'' \<and> is_digit d")
      case True
      obtain ds' r' where e: "digitpart_tail cs = (ds', r')"
        by (cases "digitpart_tail cs") auto
      with True False 3(3) have r: "r = r'" by simp
      from 3(2) [OF False True e] obtain t where "digit_tail_str t" "cs = t @ r'" by auto
      with True r show ?thesis
        by (auto intro!: exI [of _ "CHR ''_'' # d # t"] digit_tail_str.intros)
    next
      case F2: False
      with False 3(3) have "r = c # d # cs" by auto
      then show ?thesis by (auto intro!: exI [of _ "[]"] digit_tail_str.intros)
    qed
  qed
qed

lemma digitpart_complete:
  "digitpart_str d \<Longrightarrow> no_digit_ahead r \<Longrightarrow> \<exists>ds. digitpart (d @ r) = Some (ds, r)"
proof -
  assume "digitpart_str d" and n: "no_digit_ahead r"
  then obtain c t where c: "is_digit c" "digit_tail_str t" "d = c # t"
    by (auto simp: digitpart_str_def)
  from digitpart_tail_complete [OF c(2) n] obtain ds where "digitpart_tail (t @ r) = (ds, r)" ..
  with c show ?thesis by (simp add: digitpart_def)
qed

lemma digitpart_sound:
  "digitpart s = Some (ds, r) \<Longrightarrow> \<exists>d. digitpart_str d \<and> s = d @ r"
proof -
  assume a: "digitpart s = Some (ds, r)"
  then obtain c cs where s: "s = c # cs" "is_digit c"
    by (cases s) (auto simp: digitpart_def split: if_splits)
  obtain ds' r' where e: "digitpart_tail cs = (ds', r')" by (cases "digitpart_tail cs") auto
  with a s have r: "r' = r" by (simp add: digitpart_def)
  from digitpart_tail_sound [OF e] obtain t where "digit_tail_str t" "cs = t @ r'" by auto
  with s r show ?thesis
    by (auto simp: digitpart_str_def intro!: exI [of _ "c # t"])
qed

lemma digitpart_None:
  "digitpart s = None \<longleftrightarrow> (case s of [] \<Rightarrow> True | c # _ \<Rightarrow> \<not> is_digit c)"
  by (cases s) (auto simp: digitpart_def split: prod.splits)


lemma digitpart_str_hd:
  "digitpart_str d \<Longrightarrow> \<exists>c t. d = c # t \<and> is_digit c"
  by (auto simp: digitpart_str_def)

lemma opt_sign_cases:
  "opt_sign s = (neg, r) \<Longrightarrow> \<exists>sg. (sg = [] \<or> sign_str sg) \<and> s = sg @ r"
  by (cases s) (auto simp: opt_sign_def sign_str_def split: if_splits)

lemma opt_sign_sign:
  "sign_str sg \<Longrightarrow> \<exists>neg. opt_sign (sg @ r) = (neg, r)"
  by (auto simp: opt_sign_def sign_str_def)

lemma exponent_complete:
  assumes "exponent_str e"
  shows "exponent e \<noteq> None"
proof -
  from assms obtain c sg dp where e: "c = CHR ''e'' \<or> c = CHR ''E''" "sg = [] \<or> sign_str sg"
      "digitpart_str dp" "e = c # sg @ dp"
    by (auto simp: exponent_str_def)
  from digitpart_complete [OF e(3), of "[]"] obtain ds where ds: "digitpart dp = Some (ds, [])"
    by (auto simp: no_digit_ahead_def)
  from e(3) obtain d t where d: "dp = d # t" "is_digit d" by (auto dest: digitpart_str_hd)
  have "\<exists>neg. opt_sign (sg @ dp) = (neg, dp)"
  proof (cases "sg = []")
    case True
    with d is_digit_not_punct [OF d(2)] show ?thesis by (auto simp: opt_sign_def)
  next
    case False
    with e(2) show ?thesis by (auto dest: opt_sign_sign)
  qed
  then obtain neg where "opt_sign (sg @ dp) = (neg, dp)" ..
  with e ds show ?thesis by (auto simp: exponent_def)
qed

lemma exponent_unfold:
  "c = CHR ''e'' \<or> c = CHR ''E'' \<Longrightarrow> opt_sign cs = (neg, r) \<Longrightarrow>
   exponent (c # cs) =
     (case digitpart r of
        Some (ds, []) \<Rightarrow> Some (if neg then 1 / 10 ^ digits_value ds else 10 ^ digits_value ds)
      | _ \<Rightarrow> None)"
  unfolding exponent_def by simp

lemma exponent_sound:
  assumes "exponent e \<noteq> None"
  shows "e = [] \<or> exponent_str e"
proof (cases e)
  case Nil
  then show ?thesis by simp
next
  case (Cons c cs)
  have c: "c = CHR ''e'' \<or> c = CHR ''E''"
  proof (rule ccontr)
    assume "\<not> (c = CHR ''e'' \<or> c = CHR ''E'')"
    then have "exponent (c # cs) = None" unfolding exponent_def by simp
    with assms Cons show False by simp
  qed
  obtain neg r where o: "opt_sign cs = (neg, r)" by (cases "opt_sign cs") auto
  note u = exponent_unfold [OF c o]
  obtain ds where d: "digitpart r = Some (ds, [])"
  proof (cases "digitpart r")
    case None
    with u assms Cons show ?thesis by simp
  next
    case (Some a)
    obtain ds r' where a: "a = (ds, r')" by (cases a) auto
    show ?thesis
    proof (cases r')
      case Nil
      with Some a that show ?thesis by simp
    next
      case (Cons x xs)
      with Some a u have "exponent (c # cs) = None" by simp
      with assms \<open>e = c # cs\<close> show ?thesis by simp
    qed
  qed
  from digitpart_sound [OF d] have dp: "digitpart_str r" by auto
  from opt_sign_cases [OF o] obtain sg where sg: "sg = [] \<or> sign_str sg" "cs = sg @ r" by auto
  show ?thesis
    unfolding exponent_str_def using c sg dp Cons
    by (intro disjI2 exI [of _ c] exI [of _ sg] exI [of _ r]) simp
qed

lemma exponent_str_hd:
  "exponent_str e \<Longrightarrow> \<exists>c cs. e = c # cs \<and> (c = CHR ''e'' \<or> c = CHR ''E'')"
  by (auto simp: exponent_str_def)

lemma exponent_follows:
  "e = [] \<or> exponent_str e \<Longrightarrow> no_digit_ahead e \<and> digitpart e = None"
  by (auto simp: no_digit_ahead_def digitpart_None is_digit_def dest!: exponent_str_hd)

lemma floatnumber_complete:
  assumes "floatnumber_str s"
  shows "floatnumber s \<noteq> None"
proof -
  from assms obtain n e where ne: "number_str n" "e = [] \<or> exponent_str e" "s = n @ e"
    by (auto simp: floatnumber_str_def)
  from ne(2) have ex: "e \<noteq> [] \<Longrightarrow> exponent e \<noteq> None" by (auto dest: exponent_complete)
  have ex0: "exponent e \<noteq> None" using ne(2) by (auto simp: exponent_def dest: exponent_complete)
  note ef = exponent_follows [OF ne(2)]
  from ne(1) consider
      (frac) ip fp where "digitpart_str ip" "digitpart_str fp" "n = ip @ ''.'' @ fp"
    | (pure_frac) fp where "digitpart_str fp" "n = ''.'' @ fp"
    | (int) ip where "digitpart_str ip" "n = ip"
    | (int_dot) ip where "digitpart_str ip" "n = ip @ ''.''"
    by (auto simp: number_str_def)
  then show ?thesis
  proof cases
    case frac
    from digitpart_complete [OF frac(1), of "''.'' @ fp @ e"]
    obtain ds where 1: "digitpart (ip @ ''.'' @ fp @ e) = Some (ds, ''.'' @ fp @ e)"
      by (auto simp: no_digit_ahead_def is_digit_def)
    from digitpart_complete [OF frac(2), of e] ef
    obtain fs where 2: "digitpart (fp @ e) = Some (fs, e)" by auto
    from 1 2 ex0 show ?thesis
      by (auto simp: floatnumber_def ne(3) frac(3))
  next
    case pure_frac
    have 1: "digitpart (''.'' @ fp @ e) = None"
      by (simp add: digitpart_None is_digit_def)
    from digitpart_complete [OF pure_frac(1), of e] ef
    obtain fs where 2: "digitpart (fp @ e) = Some (fs, e)" by auto
    from 1 2 ex0 show ?thesis
      by (auto simp: floatnumber_def ne(3) pure_frac(2))
  next
    case int
    from digitpart_complete [OF int(1), of e] ef
    obtain ds where 1: "digitpart (ip @ e) = Some (ds, e)" by auto
    show ?thesis
    proof (cases e)
      case Nil
      with 1 show ?thesis by (simp add: floatnumber_def ne(3) int(2))
    next
      case (Cons c cs)
      with ne(2) have "c \<noteq> CHR ''.''" by (auto dest!: exponent_str_hd)
      with 1 Cons ex0 show ?thesis
        by (auto simp: floatnumber_def ne(3) int(2))
    qed
  next
    case int_dot
    from digitpart_complete [OF int_dot(1), of "''.'' @ e"]
    obtain ds where 1: "digitpart (ip @ ''.'' @ e) = Some (ds, ''.'' @ e)"
      by (auto simp: no_digit_ahead_def is_digit_def)
    from ef have 2: "digitpart e = None" by simp
    from 1 2 ex0 show ?thesis
      by (auto simp: floatnumber_def ne(3) int_dot(2))
  qed
qed

lemma floatnumber_sound:
  assumes "floatnumber s \<noteq> None"
  shows "floatnumber_str s"
proof (cases "digitpart s")
  case None
  with assms obtain r' where s: "s = CHR ''.'' # r'"
    by (cases s) (auto simp: floatnumber_def split: if_splits)
  with assms None obtain fs r'' where f: "digitpart r' = Some (fs, r'')" "exponent r'' \<noteq> None"
    by (auto simp: floatnumber_def split: option.splits)
  from digitpart_sound [OF f(1)] obtain fp where fp: "digitpart_str fp" "r' = fp @ r''" by auto
  have "number_str (''.'' @ fp)"
    unfolding number_str_def using fp(1) by (intro disjI1 exI [of _ "[]"] exI [of _ fp]) simp
  with exponent_sound [OF f(2)] s fp(2) show ?thesis
    unfolding floatnumber_str_def by (intro exI [of _ "''.'' @ fp"] exI [of _ r'']) simp
next
  case (Some a)
  then obtain ds r where d: "digitpart s = Some (ds, r)" by (cases a) auto
  from digitpart_sound [OF d] obtain ip where ip: "digitpart_str ip" "s = ip @ r" by auto
  show ?thesis
  proof (cases r)
    case Nil
    have "number_str ip" unfolding number_str_def using ip(1) by auto
    with Nil ip(2) show ?thesis
      unfolding floatnumber_str_def by (intro exI [of _ ip] exI [of _ "[]"]) simp
  next
    case (Cons c r')
    show ?thesis
    proof (cases "c = CHR ''.''")
      case False
      with assms d Cons have "exponent r \<noteq> None"
        by (auto simp: floatnumber_def)
      from exponent_sound [OF this] have "r = [] \<or> exponent_str r" .
      moreover have "number_str ip" unfolding number_str_def using ip(1) by auto
      ultimately show ?thesis
        unfolding floatnumber_str_def using ip(2) by (intro exI [of _ ip] exI [of _ r]) simp
    next
      case True
      show ?thesis
      proof (cases "digitpart r'")
        case None
        with assms d Cons True have "exponent r' \<noteq> None"
          by (auto simp: floatnumber_def)
        from exponent_sound [OF this] have "r' = [] \<or> exponent_str r'" .
        moreover have "number_str (ip @ ''.'')" unfolding number_str_def using ip(1) by auto
        ultimately show ?thesis
          unfolding floatnumber_str_def using ip(2) Cons True
          by (intro exI [of _ "ip @ ''.''"] exI [of _ r']) simp
      next
        case (Some b)
        then obtain fs r'' where f: "digitpart r' = Some (fs, r'')" by (cases b) auto
        with assms d Cons True have "exponent r'' \<noteq> None"
          by (auto simp: floatnumber_def)
        from exponent_sound [OF this] have e: "r'' = [] \<or> exponent_str r''" .
        from digitpart_sound [OF f] obtain fp where fp: "digitpart_str fp" "r' = fp @ r''" by auto
        have "number_str (ip @ ''.'' @ fp)"
          unfolding number_str_def using ip(1) fp(1)
          by (intro disjI1 exI [of _ ip] exI [of _ fp]) simp
        with e show ?thesis
          unfolding floatnumber_str_def using ip(2) Cons True fp(2)
          by (intro exI [of _ "ip @ ''.'' @ fp"] exI [of _ r'']) simp
      qed
    qed
  qed
qed

lemma floatnumber_iff: "floatnumber s \<noteq> None \<longleftrightarrow> floatnumber_str s"
  using floatnumber_sound floatnumber_complete by blast

lemma py_float_unfold:
  "opt_sign (strip s) = (neg, r) \<Longrightarrow>
   py_float s =
     (if map ascii_lower r = ''inf'' \<or> map ascii_lower r = ''infinity'' then Some (Infinity neg)
      else if map ascii_lower r = ''nan'' then Some NaN
      else map_option (\<lambda>x. Finite (if neg then - x else x)) (floatnumber r))"
  unfolding py_float_def by simp

lemma number_str_hd:
  "number_str n \<Longrightarrow> \<exists>c cs. n = c # cs \<and> c \<noteq> CHR ''+'' \<and> c \<noteq> CHR ''-''"
  unfolding number_str_def digitpart_str_def
  by (auto dest: is_digit_not_punct)

lemma ascii_lower_sign:
  "ascii_lower c = CHR ''i'' \<or> ascii_lower c = CHR ''n'' \<Longrightarrow> c \<noteq> CHR ''+'' \<and> c \<noteq> CHR ''-''"
  by (auto simp: ascii_lower_def)

lemma absfloatvalue_str_hd:
  assumes "absfloatvalue_str r"
  shows "\<exists>c cs. r = c # cs \<and> c \<noteq> CHR ''+'' \<and> c \<noteq> CHR ''-''"
proof -
  from assms consider (num) "floatnumber_str r"
    | (word) "map ascii_lower r = ''inf'' \<or> map ascii_lower r = ''infinity'' \<or> map ascii_lower r = ''nan''"
    by (auto simp: absfloatvalue_str_def)
  then show ?thesis
  proof cases
    case num
    then obtain n e where "number_str n" "r = n @ e" by (auto simp: floatnumber_str_def)
    with number_str_hd [of n] show ?thesis by auto
  next
    case word
    then obtain c cs where r: "r = c # cs" by (cases r) auto
    with word have "ascii_lower c = CHR ''i'' \<or> ascii_lower c = CHR ''n''" by auto
    from ascii_lower_sign [OF this] r show ?thesis by simp
  qed
qed

lemma py_float_sound:
  assumes "py_float s \<noteq> None"
  shows "numeric s"
proof -
  obtain neg r where o: "opt_sign (strip s) = (neg, r)" by (cases "opt_sign (strip s)") auto
  from assms have "map ascii_lower r = ''inf'' \<or> map ascii_lower r = ''infinity'' \<or>
      map ascii_lower r = ''nan'' \<or> floatnumber r \<noteq> None"
    unfolding py_float_unfold [OF o] by (auto split: if_splits)
  then have a: "absfloatvalue_str r"
    unfolding absfloatvalue_str_def using floatnumber_sound [of r] by blast
  from opt_sign_cases [OF o] obtain sg where "sg = [] \<or> sign_str sg" "strip s = sg @ r" by auto
  with a show ?thesis
    unfolding numeric_def floatvalue_str_def by (intro exI [of _ sg] exI [of _ r]) simp
qed

lemma py_float_complete:
  assumes "numeric s"
  shows "py_float s \<noteq> None"
proof -
  from assms obtain sg r where sr: "sg = [] \<or> sign_str sg" "absfloatvalue_str r" "strip s = sg @ r"
    by (auto simp: numeric_def floatvalue_str_def)
  have "\<exists>neg. opt_sign (sg @ r) = (neg, r)"
  proof (cases "sg = []")
    case True
    from absfloatvalue_str_hd [OF sr(2)] obtain c cs where "r = c # cs" "c \<noteq> CHR ''+''" "c \<noteq> CHR ''-''"
      by auto
    with True show ?thesis by (auto simp: opt_sign_def)
  next
    case False
    with sr(1) show ?thesis by (auto dest: opt_sign_sign)
  qed
  then obtain neg where o: "opt_sign (strip s) = (neg, r)" using sr(3) by auto
  from sr(2) have "map ascii_lower r = ''inf'' \<or> map ascii_lower r = ''infinity'' \<or>
      map ascii_lower r = ''nan'' \<or> floatnumber r \<noteq> None"
    unfolding absfloatvalue_str_def using floatnumber_complete [of r] by blast
  then show ?thesis
    unfolding py_float_unfold [OF o] by auto
qed

lemma py_float_numeric: "py_float s = None \<longleftrightarrow> \<not> numeric s"
  using py_float_sound py_float_complete by blast

text \<open>
  Where \<^verbatim>\<open>%\<close> occurs at most once, as the last character, deleting every
  \<^verbatim>\<open>%\<close> is stripping the trailing one.
\<close>

lemma remove_percent_trailing:
  "CHR ''%'' \<notin> set (butlast s) \<Longrightarrow> remove_percent s = strip_trailing_percent s"
proof (cases "s = []")
  case True
  then show ?thesis by (simp add: remove_percent_def strip_trailing_percent_def)
next
  case False
  assume a: "CHR ''%'' \<notin> set (butlast s)"
  from False have s: "s = butlast s @ [last s]" by simp
  from a have f: "filter (\<lambda>c. c \<noteq> CHR ''%'') (butlast s) = butlast s"
    by (simp add: filter_id_conv) metis
  have "remove_percent s = filter (\<lambda>c. c \<noteq> CHR ''%'') (butlast s @ [last s])"
    unfolding remove_percent_def using s by simp
  also have "\<dots> = butlast s @ (if last s = CHR ''%'' then [] else [last s])"
    using f by simp
  also have "\<dots> = strip_trailing_percent s"
    using False s by (auto simp: strip_trailing_percent_def)
  finally show ?thesis .
qed

text \<open>
  C8, as amended. Parsing a percentage string deletes every \<^verbatim>\<open>%\<close> character of
  it, wherever it stands, and divides the float value of what is left by 100; it fails
  (with \<^verbatim>\<open>ValueError\<close>) exactly when what is left is not numeric, that is, not in
  the grammar of \<^verbatim>\<open>float\<close>. On a string whose only \<^verbatim>\<open>%\<close>, if any, is its
  last character this is the rule of the specification: strip the trailing
  \<^verbatim>\<open>%\<close>, divide by 100, fail when the rest is not numeric.
\<close>

theorem parse_percentage_removes_every_percent:
  "(parse_percentage s = Inl ValueError \<longleftrightarrow> \<not> numeric (filter (\<lambda>c. c \<noteq> CHR ''%'') s)) \<and>
   (parse_percentage s = Inl ValueError \<longleftrightarrow>
      py_float (filter (\<lambda>c. c \<noteq> CHR ''%'') s) = None) \<and>
   (\<forall>v. py_float (filter (\<lambda>c. c \<noteq> CHR ''%'') s) = Some v \<longrightarrow>
        parse_percentage s = Inr (float_div v 100)) \<and>
   (CHR ''%'' \<notin> set (butlast s) \<longrightarrow> parse_percentage s = spec_parse_percentage s)"
proof -
  have 1: "parse_percentage s = Inl ValueError \<longleftrightarrow>
      py_float (filter (\<lambda>c. c \<noteq> CHR ''%'') s) = None"
    by (simp add: parse_percentage_def remove_percent_def split: option.splits)
  have 2: "\<forall>v. py_float (filter (\<lambda>c. c \<noteq> CHR ''%'') s) = Some v \<longrightarrow>
        parse_percentage s = Inr (float_div v 100)"
    by (simp add: parse_percentage_def remove_percent_def)
  have 3: "CHR ''%'' \<notin> set (butlast s) \<longrightarrow> parse_percentage s = spec_parse_percentage s"
    using remove_percent_trailing [of s]
    by (simp add: parse_percentage_def spec_parse_percentage_def)
  from 1 have 0: "parse_percentage s = Inl ValueError \<longleftrightarrow>
      \<not> numeric (filter (\<lambda>c. c \<noteq> CHR ''%'') s)"
    by (simp add: py_float_numeric)
  from 0 1 2 3 show ?thesis by blast
qed

theorem parse_percentage_removes_every_percent_witness:
  "numeric ''-0.5'' \<and>
   CHR ''%'' \<notin> set (butlast ''-0.5%'') \<and>
   parse_percentage ''-0.5%'' = Inr (Finite (- 0.005)) \<and>
   spec_parse_percentage ''-0.5%'' = Inr (Finite (- 0.005)) \<and>
   \<not> numeric ''1.5.'' \<and>
   parse_percentage ''1.5%.'' = Inl ValueError \<and>
   \<not> numeric [CHR 0x1C, CHR ''5''] \<and>
   parse_percentage [CHR 0x1C, CHR ''5'', CHR ''%''] = Inl ValueError \<and>
   numeric [CHR 0xA0, CHR ''5''] \<and>
   parse_percentage [CHR 0xA0, CHR ''5'', CHR ''%''] = Inr (Finite 0.05)"
proof -
  have a: "parse_percentage ''-0.5%'' = Inr (Finite (- 0.005))"
    by (simp add: py_float_defs)
  have b: "parse_percentage ''1.5%.'' = Inl ValueError"
    by (simp add: py_float_defs)
  have c: "parse_percentage [CHR 0x1C, CHR ''5'', CHR ''%''] = Inl ValueError"
    by (simp add: py_float_defs)
  have d: "parse_percentage [CHR 0xA0, CHR ''5'', CHR ''%''] = Inr (Finite 0.05)"
    by (simp add: py_float_defs)
  note t = parse_percentage_removes_every_percent
  from t [of "''-0.5%''", THEN conjunct1] a have n1: "numeric ''-0.5''" by simp
  from t [of "''-0.5%''", THEN conjunct2, THEN conjunct2, THEN conjunct2] a
  have s1: "spec_parse_percentage ''-0.5%'' = Inr (Finite (- 0.005))" by simp
  from t [of "''1.5%.''", THEN conjunct1] b have n2: "\<not> numeric ''1.5.''" by simp
  from t [of "[CHR 0x1C, CHR ''5'', CHR ''%'']", THEN conjunct1] c
  have n3: "\<not> numeric [CHR 0x1C, CHR ''5'']" by simp
  from t [of "[CHR 0xA0, CHR ''5'', CHR ''%'']", THEN conjunct1] d
  have n4: "numeric [CHR 0xA0, CHR ''5'']" by simp
  from n1 s1 n2 n3 n4 a b c d show ?thesis by simp
qed

text \<open>
  C8 as stated fails: of \<^verbatim>\<open>5%%\<close> the rest after stripping one trailing
  \<^verbatim>\<open>%\<close> is \<^verbatim>\<open>5%\<close>, which is not numeric, yet the code parses the string to 0.05.
\<close>

theorem parse_percentage_counterexample:
  "strip_trailing_percent ''5%%'' = ''5%'' \<and>
   py_float ''5%'' = None \<and>
   spec_parse_percentage ''5%%'' = Inl ValueError \<and>
   parse_percentage ''5%%'' = Inr (Finite (5 / 100))"
  by (simp add: py_float_defs spec_parse_percentage_def strip_trailing_percent_def)

end
